theory Spec2Isabelle
  imports
    Complex_Main
    "HOL-Library.Sublist"
    "HOL-Library.Multiset"
    "HOL-Library.List_Lexorder"
    "HOL-Library.Char_ord"
    "HOL-Library.Product_Lexorder"
begin

section \<open>Column values\<close>

text \<open>
  A cell of a Polars or pandas column is either null or a value, so every column is a
  list of \<open>'a option\<close> with \<open>None\<close> for null.

  The float columns (\<open>trip_distance\<close>, \<open>fare_amount\<close>, \<open>total_amount\<close>) hold doubles.
  A finite double is an exact rational, so the finite values are modelled as \<open>rat\<close>;
  the three non-finite values are kept as constructors of their own. Rounding of arithmetic
  results is not modelled: sums and quotients of finite values are exact.
\<close>

datatype f64 = NegInf | Finite rat | PosInf | NaN

text \<open>
  \<open>pl.col(c) > k\<close> and \<open>pl.col(c) <= k\<close> for a float column and a numeric literal.
  Polars orders floats totally, with NaN above every other value. (Under IEEE
  comparison both tests are false on NaN; the conjunction of the two is false either way.)
\<close>

fun f64_gt :: "f64 \<Rightarrow> rat \<Rightarrow> bool" where
  "f64_gt (Finite q) k = (k < q)"
| "f64_gt NegInf k = False"
| "f64_gt PosInf k = True"
| "f64_gt NaN k = True"

fun f64_le :: "f64 \<Rightarrow> rat \<Rightarrow> bool" where
  "f64_le (Finite q) k = (q \<le> k)"
| "f64_le NegInf k = True"
| "f64_le PosInf k = False"
| "f64_le NaN k = False"

text \<open>
  A boolean expression evaluates to true, false or null. \<open>&\<close> is Kleene conjunction,
  a comparison with a null operand is null, and \<open>DataFrame.filter\<close> keeps exactly the
  rows where the predicate is true.
\<close>

fun pl_and :: "bool option \<Rightarrow> bool option \<Rightarrow> bool option" where
  "pl_and (Some False) b = Some False"
| "pl_and a (Some False) = Some False"
| "pl_and (Some True) (Some True) = Some True"
| "pl_and a b = None"

definition pl_cmp :: "('a \<Rightarrow> 'b \<Rightarrow> bool) \<Rightarrow> 'a option \<Rightarrow> 'b \<Rightarrow> bool option" where
  "pl_cmp f col k = map_option (\<lambda>v. f v k) col"

definition pl_cmp_cols :: "('a \<Rightarrow> 'b \<Rightarrow> bool) \<Rightarrow> 'a option \<Rightarrow> 'b option \<Rightarrow> bool option" where
  "pl_cmp_cols f a b = (case (a, b) of (Some x, Some y) \<Rightarrow> Some (f x y) | _ \<Rightarrow> None)"

definition pl_is_in :: "'a option \<Rightarrow> 'a list \<Rightarrow> bool option" where
  "pl_is_in col vs = map_option (\<lambda>v. v \<in> set vs) col"

definition pl_filter :: "('r \<Rightarrow> bool option) \<Rightarrow> 'r list \<Rightarrow> 'r list" where
  "pl_filter p rows = filter (\<lambda>r. p r = Some True) rows"

section \<open>Timestamps\<close>

text \<open>
  A naive \<open>Datetime\<close> is a count of microseconds since 1970-01-01T00:00:00, a \<open>Date\<close> a
  count of days since 1970-01-01, a \<open>Duration\<close> a count of microseconds.
\<close>

type_synonym datetime = int
type_synonym date = int

definition dt_date :: "datetime \<Rightarrow> date" where
  "dt_date t = t div 86400000000"

definition dt_hour :: "datetime \<Rightarrow> int" where
  "dt_hour t = (t div 3600000000) mod 24"

text \<open>\<open>Duration.dt.total_minutes()\<close>: whole minutes, truncated towards zero.\<close>

definition dt_total_minutes :: "int \<Rightarrow> int" where
  "dt_total_minutes d = (if 0 \<le> d then d div 60000000 else - ((- d) div 60000000))"

definition day_order :: "string list" where
  "day_order = [''Monday'', ''Tuesday'', ''Wednesday'', ''Thursday'', ''Friday'',
                ''Saturday'', ''Sunday'']"

text \<open>\<open>dt.strftime("%A")\<close>: the full English weekday name; 1970-01-01 was a Thursday.\<close>

definition strftime_A :: "datetime \<Rightarrow> string" where
  "strftime_A t = day_order ! nat ((dt_date t + 3) mod 7)"

section \<open>The pipeline: \<open>load_data\<close>\<close>

text \<open>
  A row of the trip file, with the seven columns the script reads. Every column of the
  file may hold nulls.
\<close>

record raw_trip =
  raw_pickup_datetime :: "datetime option"
  raw_dropoff_datetime :: "datetime option"
  raw_PULocationID :: "int option"
  raw_trip_distance :: "f64 option"
  raw_fare_amount :: "f64 option"
  raw_total_amount :: "f64 option"
  raw_payment_type :: "int option"

text \<open>A row of the materialised table \<open>df\<close>: the nine columns of \<open>cols\<close>.\<close>

record trip =
  tpep_pickup_datetime :: "datetime option"
  fare_amount :: "f64 option"
  total_amount :: "f64 option"
  PULocationID :: "int option"
  trip_distance :: "f64 option"
  trip_duration_minutes :: "int option"
  pickup_hour :: "int option"
  pickup_day_of_week :: "string option"
  payment_type :: "int option"

definition drop_nulls :: "raw_trip list \<Rightarrow> raw_trip list" where
  "drop_nulls rows = filter (\<lambda>r.
      raw_pickup_datetime r \<noteq> None \<and>
      raw_dropoff_datetime r \<noteq> None \<and>
      raw_PULocationID r \<noteq> None \<and>
      raw_trip_distance r \<noteq> None \<and>
      raw_fare_amount r \<noteq> None) rows"

definition valid_trip :: "raw_trip \<Rightarrow> bool option" where
  "valid_trip r =
     pl_and (pl_and (pl_and (pl_and
       (pl_cmp f64_gt (raw_trip_distance r) 0)
       (pl_cmp f64_le (raw_trip_distance r) 100))
       (pl_cmp f64_gt (raw_fare_amount r) 0))
       (pl_cmp f64_le (raw_fare_amount r) 500))
       (pl_cmp_cols (\<lambda>d p. p \<le> d) (raw_dropoff_datetime r) (raw_pickup_datetime r))"

text \<open>
  \<open>with_columns\<close> followed by \<open>select(cols)\<close>. The column \<open>trip_speed_mph\<close> is computed
  by \<open>with_columns\<close> and dropped again by \<open>select\<close>, so it is no part of the row.
\<close>

definition select_cols :: "raw_trip \<Rightarrow> trip" where
  "select_cols r = \<lparr>
     tpep_pickup_datetime = raw_pickup_datetime r,
     fare_amount = raw_fare_amount r,
     total_amount = raw_total_amount r,
     PULocationID = raw_PULocationID r,
     trip_distance = raw_trip_distance r,
     trip_duration_minutes =
       (case (raw_dropoff_datetime r, raw_pickup_datetime r) of
          (Some d, Some p) \<Rightarrow> Some (dt_total_minutes (d - p))
        | _ \<Rightarrow> None),
     pickup_hour = map_option dt_hour (raw_pickup_datetime r),
     pickup_day_of_week = map_option strftime_A (raw_pickup_datetime r),
     payment_type = raw_payment_type r \<rparr>"

text \<open>
  \<open>load_data\<close> on the rows of the trip file. Downloading and parsing the file are
  outside this function's model: its argument is what \<open>scan_parquet\<close> yields.
\<close>

definition load_data :: "raw_trip list \<Rightarrow> trip list" where
  "load_data rows = map select_cols (pl_filter valid_trip (drop_nulls rows))"

section \<open>The filter step: \<open>filtered_polars\<close>\<close>

datatype error = IndexError | DownloadFailed string | ConnectionError

text \<open>
  The sidebar hands over \<open>date_range\<close> (the tuple \<open>date_input\<close> returns, of up to two
  dates), \<open>hour_range\<close> (the pair the slider returns) and \<open>selected_ids\<close>. Indexing
  \<open>date_range[0]\<close> and \<open>date_range[1]\<close> raises when the tuple is shorter.
\<close>

definition filter_pred :: "date \<Rightarrow> date \<Rightarrow> int \<times> int \<Rightarrow> int list \<Rightarrow> trip \<Rightarrow> bool option" where
  "filter_pred d0 d1 hour_range selected_ids r =
     pl_and (pl_and (pl_and (pl_and (pl_and (pl_and
       (pl_cmp (\<lambda>t d. d \<le> dt_date t) (tpep_pickup_datetime r) d0)
       (pl_cmp (\<lambda>t d. dt_date t \<le> d) (tpep_pickup_datetime r) d1))
       (pl_cmp (\<lambda>h k. k \<le> h) (pickup_hour r) (fst hour_range)))
       (pl_cmp (\<lambda>h k. h \<le> k) (pickup_hour r) (snd hour_range)))
       (pl_is_in (payment_type r) selected_ids))
       (pl_cmp f64_gt (trip_distance r) 0))
       (pl_cmp f64_le (trip_distance r) 100)"

definition filtered_polars ::
  "trip list \<Rightarrow> date list \<Rightarrow> int \<times> int \<Rightarrow> int list \<Rightarrow> error + trip list" where
  "filtered_polars df date_range hour_range selected_ids =
     (case date_range of
        d0 # d1 # _ \<Rightarrow> Inr (pl_filter (filter_pred d0 d1 hour_range selected_ids) df)
      | _ \<Rightarrow> Inl IndexError)"

section \<open>The sidebar: payment labels and \<open>selected_ids\<close>\<close>

text \<open>The dictionary \<open>payment_map\<close>, in the order of its literal (the iteration order).\<close>

definition payment_map :: "(int \<times> string) list" where
  "payment_map = [(1, ''Credit Card''), (2, ''Cash''), (0, ''Void/Unknown''),
                  (4, ''Dispute''), (3, ''No Charge'')]"

text \<open>\<open>str(i)\<close> for an integer, as the f-string \<open>f"ID {i}"\<close> formats it.\<close>

fun str_nat :: "nat \<Rightarrow> string" where
  "str_nat n = (if n < 10 then [''0123456789'' ! n]
                else str_nat (n div 10) @ [''0123456789'' ! (n mod 10)])"

declare str_nat.simps [simp del]

definition str_int :: "int \<Rightarrow> string" where
  "str_int i = (if i < 0 then CHR ''-'' # str_nat (nat (- i)) else str_nat (nat i))"

text \<open>
  \<open>payment_map.get(i, f"ID {i}")\<close> for an element of \<open>payment_ids\<close>, which is \<open>None\<close>
  when the column holds a null.
\<close>

definition payment_label :: "int option \<Rightarrow> string" where
  "payment_label i =
     (case i of
        None \<Rightarrow> ''ID None''
      | Some k \<Rightarrow> (case map_of payment_map k of Some v \<Rightarrow> v | None \<Rightarrow> ''ID '' @ str_int k))"

text \<open>
  \<open>payment_options\<close>: the sorted labels of the distinct values of the column. The order
  in which \<open>unique()\<close> lists the values is immaterial under \<open>sorted\<close>.
\<close>

definition payment_options :: "trip list \<Rightarrow> string list" where
  "payment_options df = sort (map payment_label (remdups (map payment_type df)))"

text \<open>
  \<open>selected_ids\<close>, from the labels the multiselect returns: the keys of \<open>payment_map\<close>
  whose label was selected.
\<close>

definition selected_ids :: "string list \<Rightarrow> int list" where
  "selected_ids selected_payments =
     map fst (filter (\<lambda>(k, v). v \<in> set selected_payments) payment_map)"

section \<open>The script's state around the filter step\<close>

text \<open>
  The globals of the script that exist when the filter step runs. The step reads four of
  them and binds \<open>filtered_polars\<close>; a raised exception ends the run.
\<close>

record script_state =
  s_df :: "trip list"
  s_date_range :: "date list"
  s_hour_range :: "int \<times> int"
  s_payment_options :: "string list"
  s_selected_payments :: "string list"
  s_selected_ids :: "int list"
  s_filtered_polars :: "trip list option"

definition filter_step :: "script_state \<Rightarrow> error + script_state" where
  "filter_step s =
     (case filtered_polars (s_df s) (s_date_range s) (s_hour_range s) (s_selected_ids s) of
        Inl e \<Rightarrow> Inl e
      | Inr view \<Rightarrow> Inr (s\<lparr>s_filtered_polars := Some view\<rparr>))"

section \<open>The fetcher: \<open>download_file\<close>\<close>

text \<open>
  The file system maps a path to the content of the file there. \<open>requests.get\<close> either
  raises or returns a status code and a body stream; iterating the stream yields chunks
  and may raise part-way when the transfer is interrupted.
\<close>

type_synonym filesystem = "string \<Rightarrow> string option"

datatype chunk_event = Chunk string | Interrupted

datatype http_response = NoResponse | Response int "chunk_event list"

datatype download_outcome = Downloaded | AlreadyExists

text \<open>
  The loop \<open>for chunk in response.iter_content(...): f.write(chunk)\<close>: what has been
  written, and whether the stream ended without raising.
\<close>

fun write_chunks :: "string \<Rightarrow> chunk_event list \<Rightarrow> string \<times> bool" where
  "write_chunks written [] = (written, True)"
| "write_chunks written (Chunk c # rest) = write_chunks (written @ c) rest"
| "write_chunks written (Interrupted # rest) = (written, False)"

text \<open>
  \<open>open(destination, "wb")\<close> creates the file (empty) before the first chunk is read,
  and leaving the \<open>with\<close> block closes it, also when the loop raises.
\<close>

definition download_file ::
  "(string \<Rightarrow> http_response) \<Rightarrow> string \<Rightarrow> string \<Rightarrow> filesystem
     \<Rightarrow> (error + download_outcome) \<times> filesystem" where
  "download_file requests_get url destination fs =
     (if fs destination = None then
        (case requests_get url of
           NoResponse \<Rightarrow> (Inl ConnectionError, fs)
         | Response status_code body \<Rightarrow>
             if status_code \<noteq> 200 then (Inl (DownloadFailed (''Failed to download '' @ url)), fs)
             else (case write_chunks [] body of
                     (written, True) \<Rightarrow> (Inr Downloaded, fs(destination \<mapsto> written))
                   | (written, False) \<Rightarrow> (Inl ConnectionError, fs(destination \<mapsto> written))))
      else (Inr AlreadyExists, fs))"

section \<open>The aggregates over \<open>filtered_df\<close>\<close>

text \<open>
  \<open>filtered_df = filtered_polars.to_pandas()\<close> holds the same rows; a null becomes the
  missing value of the column's pandas type, which every operation below skips as it
  skips NaN.
\<close>

subsection \<open>Float reductions\<close>

fun f64_add :: "f64 \<Rightarrow> f64 \<Rightarrow> f64" where
  "f64_add NaN y = NaN"
| "f64_add x NaN = NaN"
| "f64_add (Finite a) (Finite b) = Finite (a + b)"
| "f64_add PosInf NegInf = NaN"
| "f64_add NegInf PosInf = NaN"
| "f64_add PosInf y = PosInf"
| "f64_add x PosInf = PosInf"
| "f64_add NegInf y = NegInf"
| "f64_add x NegInf = NegInf"

fun f64_div_count :: "f64 \<Rightarrow> nat \<Rightarrow> f64" where
  "f64_div_count (Finite a) n = Finite (a / of_nat n)"
| "f64_div_count x n = x"

text \<open>The values a reduction with \<open>skipna=True\<close> (the default) takes into account.\<close>

definition pd_dropna :: "f64 option list \<Rightarrow> f64 list" where
  "pd_dropna col = filter (\<lambda>v. v \<noteq> NaN) (List.map_filter id col)"

definition pd_sum :: "f64 option list \<Rightarrow> f64" where
  "pd_sum col = foldl f64_add (Finite 0) (pd_dropna col)"

text \<open>
  \<open>mean()\<close>: the sum of the values present over their number, and NaN (no exception)
  when none is present. The division is made only for a positive count.
\<close>

definition pd_mean :: "f64 option list \<Rightarrow> f64" where
  "pd_mean col =
     (let vs = pd_dropna col
      in if vs = [] then NaN else f64_div_count (foldl f64_add (Finite 0) vs) (length vs))"

subsection \<open>Grouping\<close>

text \<open>
  \<open>groupby(key)\<close> drops the rows whose key is missing and lists the groups by ascending
  key; \<open>size()\<close> counts the rows of each group.
\<close>

definition group_keys :: "'k::linorder option list \<Rightarrow> 'k list" where
  "group_keys ks = sort (remdups (List.map_filter id ks))"

definition groupby_size :: "'k::linorder option list \<Rightarrow> ('k \<times> nat) list" where
  "groupby_size ks = map (\<lambda>k. (k, count_list ks (Some k))) (group_keys ks)"

text \<open>
  \<open>sort_values(by, ascending=False)\<close> is called with the default sort kind, which is
  not stable, and with no second key: the result is the rows in descending order of the
  count, and the order of rows with equal counts is left to the sorting algorithm. The
  sort is therefore a parameter \<open>srt\<close> of the aggregates that use it, constrained by
  this contract only.
\<close>

definition sort_values_desc :: "(('k \<times> nat) list \<Rightarrow> ('k \<times> nat) list) \<Rightarrow> bool" where
  "sort_values_desc srt \<longleftrightarrow>
     (\<forall>xs. mset (srt xs) = mset xs \<and> sorted_wrt (\<lambda>a b. snd b \<le> snd a) (srt xs))"

text \<open>Two sorts that meet the contract: ties in their original order, and ties reversed.\<close>

definition sort_desc_ties_first :: "('k \<times> nat) list \<Rightarrow> ('k \<times> nat) list" where
  "sort_desc_ties_first xs = rev (sort_key snd (rev xs))"


subsection \<open>Key metrics\<close>

record metrics =
  total_trips :: nat
  average_fare :: f64
  total_revenue :: f64
  avg_distance :: f64
  avg_duration :: f64

text \<open>The block under \<open>if not filtered_df.empty\<close>; nothing is computed for an empty view.\<close>

definition key_metrics :: "trip list \<Rightarrow> metrics option" where
  "key_metrics df =
     (if df = [] then None
      else Some \<lparr>
        total_trips = length df,
        average_fare = pd_mean (map fare_amount df),
        total_revenue = pd_sum (map total_amount df),
        avg_distance = pd_mean (map trip_distance df),
        avg_duration = pd_mean (map (\<lambda>r. map_option (\<lambda>m. Finite (of_int m)) (trip_duration_minutes r)) df) \<rparr>)"

subsection \<open>Top pickup zones\<close>

text \<open>A row of the zone lookup table.\<close>

record zone =
  LocationID :: "int option"
  Borough :: "string option"
  Zone :: "string option"
  service_zone :: "string option"

text \<open>
  \<open>merge(zones, left_on="PULocationID", right_on="LocationID")\<close>: the inner join. pandas
  matches a missing key with a missing key, as equality of \<open>option\<close> values does.
\<close>

definition merge_zones :: "trip list \<Rightarrow> zone list \<Rightarrow> (trip \<times> zone) list" where
  "merge_zones df zones =
     concat (map (\<lambda>r. map (Pair r) (filter (\<lambda>z. LocationID z = PULocationID r) zones)) df)"

definition zone_counts :: "trip list \<Rightarrow> zone list \<Rightarrow> (string \<times> nat) list" where
  "zone_counts df zones = groupby_size (map (\<lambda>(r, z). Zone z) (merge_zones df zones))"

definition top_zones ::
  "((string \<times> nat) list \<Rightarrow> (string \<times> nat) list) \<Rightarrow> trip list \<Rightarrow> zone list \<Rightarrow> (string \<times> nat) list" where
  "top_zones srt df zones = take 10 (srt (zone_counts df zones))"

subsection \<open>Average fare by hour\<close>

definition avg_fare_hour :: "trip list \<Rightarrow> (int \<times> f64) list" where
  "avg_fare_hour df =
     map (\<lambda>h. (h, pd_mean (map fare_amount (filter (\<lambda>r. pickup_hour r = Some h) df))))
       (group_keys (map pickup_hour df))"

subsection \<open>Payment type distribution\<close>

text \<open>
  \<open>value_counts(normalize=True)\<close>: the distinct values present, each with its share of
  the values present, in descending order of the count.
\<close>

definition value_counts ::
  "(('k \<times> nat) list \<Rightarrow> ('k \<times> nat) list) \<Rightarrow> 'k option list \<Rightarrow> ('k \<times> rat) list" where
  "value_counts srt col =
     (let vs = List.map_filter id col
      in map (\<lambda>(v, n). (v, of_nat n / of_nat (length vs)))
           (srt (map (\<lambda>v. (v, count_list vs v)) (rev (remdups (rev vs))))))"

text \<open>
  \<open>Series.map(payment_map)\<close> looks each value up in the dictionary; a value that is no
  key of it maps to the missing value.
\<close>

record payment_share =
  ps_payment_type :: int
  ps_proportion :: rat
  ps_payment_type_labelled :: "string option"

definition payment_breakdown ::
  "((int \<times> nat) list \<Rightarrow> (int \<times> nat) list) \<Rightarrow> trip list \<Rightarrow> payment_share list" where
  "payment_breakdown srt df =
     map (\<lambda>(v, p). \<lparr> ps_payment_type = v, ps_proportion = p,
                      ps_payment_type_labelled = map_of payment_map v \<rparr>)
       (value_counts srt (map payment_type df))"

subsection \<open>Trips by day and hour\<close>

text \<open>
  \<open>groupby(["pickup_day_of_week", "pickup_hour"]).size().reset_index(name="trip_count")\<close>:
  the key of a row is its pair of day and hour, missing when either is.
\<close>

definition day_hour_key :: "trip \<Rightarrow> (string \<times> int) option" where
  "day_hour_key r =
     (case (pickup_day_of_week r, pickup_hour r) of
        (Some d, Some h) \<Rightarrow> Some (d, h)
      | _ \<Rightarrow> None)"

definition day_hour_counts :: "trip list \<Rightarrow> ((string \<times> int) \<times> nat) list" where
  "day_hour_counts df = groupby_size (map day_hour_key df)"

text \<open>
  \<open>pivot\<close>: one row per day that occurs, one column per hour that occurs, both ascending;
  a cell without a count is missing.
\<close>

definition pivot :: "((string \<times> int) \<times> nat) list \<Rightarrow> int list \<times> (string \<times> nat option list) list" where
  "pivot counts =
     (let index = sort (remdups (map (\<lambda>((d, h), n). d) counts));
          columns = sort (remdups (map (\<lambda>((d, h), n). h) counts))
      in (columns, map (\<lambda>d. (d, map (\<lambda>h. map_of counts (d, h)) columns)) index))"

text \<open>\<open>reindex(day_order)\<close>: the rows for the labels given, in that order; a label with no row gets a row of missing cells.\<close>

definition reindex ::
  "string list \<Rightarrow> int list \<times> (string \<times> nat option list) list \<Rightarrow> int list \<times> (string \<times> nat option list) list" where
  "reindex labels frame =
     (fst frame,
      map (\<lambda>d. (d, case map_of (snd frame) d of
                      Some cells \<Rightarrow> cells
                    | None \<Rightarrow> map (\<lambda>h. None) (fst frame))) labels)"

definition fillna0 :: "int list \<times> (string \<times> nat option list) list \<Rightarrow> int list \<times> (string \<times> nat list) list" where
  "fillna0 frame =
     (fst frame, map (\<lambda>(d, cells). (d, map (\<lambda>c. case c of Some n \<Rightarrow> n | None \<Rightarrow> 0) cells)) (snd frame))"

text \<open>The matrix as its column labels and its labelled rows.\<close>

definition heatmap_data :: "trip list \<Rightarrow> int list \<times> (string \<times> nat list) list" where
  "heatmap_data df = fillna0 (reindex day_order (pivot (day_hour_counts df)))"

subsection \<open>Trip distance histogram\<close>

text \<open>
  \<open>px.histogram(filtered_df, x="trip_distance", nbins=50)\<close> hands the column to the
  charting library, which does the binning; the script computes nothing more.
\<close>

definition histogram_x :: "trip list \<Rightarrow> f64 option list" where
  "histogram_x df = map trip_distance df"

section \<open>Example inputs\<close>

definition raw_example :: "raw_trip list" where
  "raw_example = [
     \<lparr> raw_pickup_datetime = Some 1704099600000000, raw_dropoff_datetime = Some 1704100500000000,
       raw_PULocationID = Some 132, raw_trip_distance = Some (Finite (5 / 2)),
       raw_fare_amount = Some (Finite 14), raw_total_amount = Some (Finite 18),
       raw_payment_type = Some 1 \<rparr>,
     \<lparr> raw_pickup_datetime = Some 1704099600000000, raw_dropoff_datetime = Some 1704100500000000,
       raw_PULocationID = Some 132, raw_trip_distance = Some (Finite 0),
       raw_fare_amount = Some (Finite 14), raw_total_amount = Some (Finite 18),
       raw_payment_type = Some 1 \<rparr>,
     \<lparr> raw_pickup_datetime = Some 1704099600000000, raw_dropoff_datetime = Some 1704100500000000,
       raw_PULocationID = Some 132, raw_trip_distance = Some NaN,
       raw_fare_amount = None, raw_total_amount = Some (Finite 18),
       raw_payment_type = Some 2 \<rparr>,
     \<lparr> raw_pickup_datetime = Some 1704100500000000, raw_dropoff_datetime = Some 1704099600000000,
       raw_PULocationID = Some 132, raw_trip_distance = Some (Finite 3),
       raw_fare_amount = Some (Finite 501), raw_total_amount = None,
       raw_payment_type = Some 5 \<rparr>]"

definition df_example :: "trip list" where
  "df_example = [
     \<lparr> tpep_pickup_datetime = Some 1704099600000000, fare_amount = Some (Finite 14),
       total_amount = Some (Finite 18), PULocationID = Some 132,
       trip_distance = Some (Finite (5 / 2)), trip_duration_minutes = Some 15,
       pickup_hour = Some 9, pickup_day_of_week = Some ''Monday'', payment_type = Some 1 \<rparr>,
     \<lparr> tpep_pickup_datetime = Some 1704186000000000, fare_amount = Some (Finite 8),
       total_amount = Some (Finite 10), PULocationID = Some 161,
       trip_distance = Some (Finite 1), trip_duration_minutes = Some 6,
       pickup_hour = Some 9, pickup_day_of_week = Some ''Tuesday'', payment_type = Some 2 \<rparr>,
     \<lparr> tpep_pickup_datetime = Some 1704150000000000, fare_amount = Some (Finite 30),
       total_amount = Some (Finite 35), PULocationID = Some 132,
       trip_distance = Some (Finite 9), trip_duration_minutes = Some 25,
       pickup_hour = Some 23, pickup_day_of_week = Some ''Monday'', payment_type = Some 5 \<rparr>]"

definition state_example :: script_state where
  "state_example = \<lparr> s_df = df_example, s_date_range = [19723, 19753], s_hour_range = (0, 12),
     s_payment_options = [''Cash'', ''Credit Card'', ''ID 5''],
     s_selected_payments = [''Cash'', ''Credit Card''], s_selected_ids = [1, 2],
     s_filtered_polars = None \<rparr>"

definition state_example' :: script_state where
  "state_example' = \<lparr> s_df = df_example, s_date_range = [19723, 19753], s_hour_range = (0, 12),
     s_payment_options = [], s_selected_payments = [''Cash''], s_selected_ids = [1, 2],
     s_filtered_polars = Some [] \<rparr>"

definition trip_url :: string where
  "trip_url = ''https://d37ci6vzurychx.cloudfront.net/trip-data/yellow_tripdata_2024-01.parquet''"

definition trip_file :: string where
  "trip_file = ''data/raw/yellow_tripdata_2024_01.parquet''"

definition zones_example :: "zone list" where
  "zones_example = [
     \<lparr> LocationID = Some 132, Borough = Some ''Queens'', Zone = Some ''JFK Airport'',
       service_zone = Some ''Airports'' \<rparr>,
     \<lparr> LocationID = Some 161, Borough = Some ''Manhattan'', Zone = Some ''Midtown Center'',
       service_zone = Some ''Yellow Zone'' \<rparr>,
     \<lparr> LocationID = Some 4, Borough = Some ''Manhattan'', Zone = Some ''Alphabet City'',
       service_zone = Some ''Yellow Zone'' \<rparr>]"

section \<open>Properties of the column operations\<close>

lemma pl_and_True [simp]: "pl_and a b = Some True \<longleftrightarrow> a = Some True \<and> b = Some True"
  by (cases "(a, b)" rule: pl_and.cases) auto

lemma f64_bounds: "f64_gt x lo \<and> f64_le x hi \<longleftrightarrow> (\<exists>q. x = Finite q \<and> lo < q \<and> q \<le> hi)"
  by (cases x) auto

lemma pl_cmp_True [simp]: "pl_cmp f col k = Some True \<longleftrightarrow> (\<exists>v. col = Some v \<and> f v k)"
  by (cases col) (auto simp: pl_cmp_def)

lemma pl_cmp_cols_True [simp]:
  "pl_cmp_cols f a b = Some True \<longleftrightarrow> (\<exists>x y. a = Some x \<and> b = Some y \<and> f x y)"
  by (auto simp: pl_cmp_cols_def split: option.splits)

lemma pl_is_in_True [simp]: "pl_is_in col vs = Some True \<longleftrightarrow> (\<exists>v. col = Some v \<and> v \<in> set vs)"
  by (cases col) (auto simp: pl_is_in_def)

lemma set_pl_filter [simp]: "set (pl_filter p rows) = {r \<in> set rows. p r = Some True}"
  by (simp add: pl_filter_def)

lemma subseq_pl_filter: "subseq (pl_filter p rows) rows"
  by (simp add: pl_filter_def)

lemma dt_hour_range: "0 \<le> dt_hour t \<and> dt_hour t \<le> 23"
  by (simp add: dt_hour_def)

lemma valid_trip_True:
  "valid_trip r = Some True \<longleftrightarrow>
     (\<exists>d f p t. raw_trip_distance r = Some (Finite d) \<and> 0 < d \<and> d \<le> 100 \<and>
        raw_fare_amount r = Some (Finite f) \<and> 0 < f \<and> f \<le> 500 \<and>
        raw_pickup_datetime r = Some p \<and> raw_dropoff_datetime r = Some t \<and> p \<le> t)"
proof -
  have d: "(\<exists>v. raw_trip_distance r = Some v \<and> f64_gt v 0) \<and> (\<exists>v. raw_trip_distance r = Some v \<and> f64_le v 100)
      \<longleftrightarrow> (\<exists>q. raw_trip_distance r = Some (Finite q) \<and> 0 < q \<and> q \<le> 100)"
    using f64_bounds [of _ 0 100] by (cases "raw_trip_distance r") auto
  have f: "(\<exists>v. raw_fare_amount r = Some v \<and> f64_gt v 0) \<and> (\<exists>v. raw_fare_amount r = Some v \<and> f64_le v 500)
      \<longleftrightarrow> (\<exists>q. raw_fare_amount r = Some (Finite q) \<and> 0 < q \<and> q \<le> 500)"
    using f64_bounds [of _ 0 500] by (cases "raw_fare_amount r") auto
  show ?thesis
    unfolding valid_trip_def pl_and_True pl_cmp_True pl_cmp_cols_True
    using d f by blast
qed

lemma filter_pred_True:
  "filter_pred d0 d1 hour_range ids r = Some True \<longleftrightarrow>
     (\<exists>t h p q. tpep_pickup_datetime r = Some t \<and> d0 \<le> dt_date t \<and> dt_date t \<le> d1 \<and>
        pickup_hour r = Some h \<and> fst hour_range \<le> h \<and> h \<le> snd hour_range \<and>
        payment_type r = Some p \<and> p \<in> set ids \<and>
        trip_distance r = Some (Finite q) \<and> 0 < q \<and> q \<le> 100)"
proof -
  have d: "(\<exists>v. trip_distance r = Some v \<and> f64_gt v 0) \<and> (\<exists>v. trip_distance r = Some v \<and> f64_le v 100)
      \<longleftrightarrow> (\<exists>q. trip_distance r = Some (Finite q) \<and> 0 < q \<and> q \<le> 100)"
    using f64_bounds [of _ 0 100] by (cases "trip_distance r") auto
  show ?thesis
    unfolding filter_pred_def pl_and_True pl_cmp_True pl_is_in_True
    using d by (cases "tpep_pickup_datetime r"; cases "pickup_hour r") auto
qed

lemma filtered_polars_rows:
  assumes "filtered_polars df date_range hour_range ids = Inr view" "r \<in> set view"
  shows "r \<in> set df \<and> (\<exists>t h p q.
            tpep_pickup_datetime r = Some t \<and>
            date_range ! 0 \<le> dt_date t \<and> dt_date t \<le> date_range ! 1 \<and>
            pickup_hour r = Some h \<and> fst hour_range \<le> h \<and> h \<le> snd hour_range \<and>
            payment_type r = Some p \<and> p \<in> set ids \<and>
            trip_distance r = Some (Finite q) \<and> 0 < q \<and> q \<le> 100)"
proof -
  from assms(1) obtain d0 d1 rest where dr: "date_range = d0 # d1 # rest"
    and view: "view = pl_filter (filter_pred d0 d1 hour_range ids) df"
    by (auto simp: filtered_polars_def split: list.splits)
  from assms(2) have "r \<in> set df" "filter_pred d0 d1 hour_range ids r = Some True"
    unfolding view by simp_all
  then show ?thesis
    unfolding filter_pred_True by (simp add: dr)
qed

lemma filtered_polars_subseq:
  "filtered_polars df date_range hour_range ids = Inr view \<Longrightarrow> subseq view df"
  by (auto simp: filtered_polars_def subseq_pl_filter split: list.splits)

section \<open>The pipeline's invariants\<close>

text \<open>
  C2. Every row of the table that \<open>load_data\<close> materialises is the projection of a row
  of the trip file, unchanged, whose pickup and dropoff timestamps, pickup location id,
  trip distance and fare amount are non-null, with \<open>0 < trip_distance \<le> 100\<close>,
  \<open>0 < fare_amount \<le> 500\<close> and dropoff not before pickup; the row's own
  \<open>trip_distance\<close>, \<open>fare_amount\<close>, pickup timestamp and location id are those values,
  and its \<open>pickup_hour\<close> lies in 0..23.
\<close>

theorem load_data_invariants:
  assumes "row \<in> set (load_data rows)"
  shows "\<exists>r p t loc d f h.
           r \<in> set rows \<and> row = select_cols r \<and>
           raw_pickup_datetime r = Some p \<and> raw_dropoff_datetime r = Some t \<and> p \<le> t \<and>
           raw_PULocationID r = Some loc \<and>
           tpep_pickup_datetime row = Some p \<and> PULocationID row = Some loc \<and>
           trip_distance row = Some (Finite d) \<and> 0 < d \<and> d \<le> 100 \<and>
           fare_amount row = Some (Finite f) \<and> 0 < f \<and> f \<le> 500 \<and>
           pickup_hour row = Some h \<and> 0 \<le> h \<and> h \<le> 23"
proof -
  from assms obtain r where r: "r \<in> set (drop_nulls rows)" "valid_trip r = Some True"
    and row: "row = select_cols r"
    by (auto simp: load_data_def)
  from r(1) have in_rows: "r \<in> set rows" and "raw_PULocationID r \<noteq> None"
    by (auto simp: drop_nulls_def)
  then obtain loc where loc: "raw_PULocationID r = Some loc"
    by auto
  from r(2) obtain d f p t where v:
    "raw_trip_distance r = Some (Finite d)" "0 < d" "d \<le> 100"
    "raw_fare_amount r = Some (Finite f)" "0 < f" "f \<le> 500"
    "raw_pickup_datetime r = Some p" "raw_dropoff_datetime r = Some t" "p \<le> t"
    unfolding valid_trip_True by blast
  have h: "pickup_hour row = Some (dt_hour p)"
    by (simp add: row select_cols_def v)
  have cols: "tpep_pickup_datetime row = Some p" "PULocationID row = Some loc"
    "trip_distance row = Some (Finite d)" "fare_amount row = Some (Finite f)"
    by (simp_all add: row select_cols_def v loc)
  show ?thesis
    using in_rows row v loc h cols dt_hour_range [of p] by blast
qed

theorem load_data_invariants_witness:
  "load_data raw_example =
     [\<lparr> tpep_pickup_datetime = Some 1704099600000000, fare_amount = Some (Finite 14),
        total_amount = Some (Finite 18), PULocationID = Some 132,
        trip_distance = Some (Finite (5 / 2)), trip_duration_minutes = Some 15,
        pickup_hour = Some 9, pickup_day_of_week = Some ''Monday'',
        payment_type = Some 1 \<rparr>] \<and>
   (\<exists>r p t loc d f h.
      r \<in> set raw_example \<and> hd (load_data raw_example) = select_cols r \<and>
      raw_pickup_datetime r = Some p \<and> raw_dropoff_datetime r = Some t \<and> p \<le> t \<and>
      raw_PULocationID r = Some loc \<and>
      tpep_pickup_datetime (hd (load_data raw_example)) = Some p \<and>
      PULocationID (hd (load_data raw_example)) = Some loc \<and>
      trip_distance (hd (load_data raw_example)) = Some (Finite d) \<and> 0 < d \<and> d \<le> 100 \<and>
      fare_amount (hd (load_data raw_example)) = Some (Finite f) \<and> 0 < f \<and> f \<le> 500 \<and>
      pickup_hour (hd (load_data raw_example)) = Some h \<and> 0 \<le> h \<and> h \<le> 23)"
proof -
  have eq: "load_data raw_example =
     [\<lparr> tpep_pickup_datetime = Some 1704099600000000, fare_amount = Some (Finite 14),
        total_amount = Some (Finite 18), PULocationID = Some 132,
        trip_distance = Some (Finite (5 / 2)), trip_duration_minutes = Some 15,
        pickup_hour = Some 9, pickup_day_of_week = Some ''Monday'',
        payment_type = Some 1 \<rparr>]"
    by (simp add: load_data_def raw_example_def drop_nulls_def pl_filter_def valid_trip_def
        pl_cmp_def pl_cmp_cols_def select_cols_def dt_hour_def dt_total_minutes_def
        strftime_A_def dt_date_def day_order_def)
  then have "hd (load_data raw_example) \<in> set (load_data raw_example)"
    by simp
  from load_data_invariants [OF this] eq show ?thesis
    by blast
qed

section \<open>Soundness of the filter step\<close>

text \<open>
  C1. Whenever the filter step produces a view, the view is a subsequence of the base
  table (no row is invented, none is duplicated or reordered), and every row of it
  satisfies all predicates together: its pickup date lies in \<open>[date_range[0],
  date_range[1]]\<close>, its \<open>pickup_hour\<close> in \<open>[hour_range[0], hour_range[1]]\<close>, its
  \<open>payment_type\<close> is one of \<open>selected_ids\<close>, and \<open>0 < trip_distance \<le> 100\<close>.
\<close>

theorem filtered_polars_sound:
  assumes "filtered_polars df date_range hour_range ids = Inr view"
  shows "subseq view df \<and> set view \<subseteq> set df \<and>
         (\<forall>r \<in> set view. \<exists>t h p q.
            tpep_pickup_datetime r = Some t \<and>
            date_range ! 0 \<le> dt_date t \<and> dt_date t \<le> date_range ! 1 \<and>
            pickup_hour r = Some h \<and> fst hour_range \<le> h \<and> h \<le> snd hour_range \<and>
            payment_type r = Some p \<and> p \<in> set ids \<and>
            trip_distance r = Some (Finite q) \<and> 0 < q \<and> q \<le> 100)"
proof (intro conjI ballI)
  show "subseq view df"
    using assms by (rule filtered_polars_subseq)
  show "set view \<subseteq> set df"
    using filtered_polars_rows [OF assms] by blast
next
  fix r
  assume "r \<in> set view"
  from filtered_polars_rows [OF assms this]
  show "\<exists>t h p q.
            tpep_pickup_datetime r = Some t \<and>
            date_range ! 0 \<le> dt_date t \<and> dt_date t \<le> date_range ! 1 \<and>
            pickup_hour r = Some h \<and> fst hour_range \<le> h \<and> h \<le> snd hour_range \<and>
            payment_type r = Some p \<and> p \<in> set ids \<and>
            trip_distance r = Some (Finite q) \<and> 0 < q \<and> q \<le> 100"
    by blast
qed

theorem filtered_polars_sound_witness:
  "filtered_polars df_example [19723, 19753] (0, 12) [1, 2] = Inr (take 2 df_example) \<and>
   subseq (take 2 df_example) df_example \<and>
   set (take 2 df_example) \<subseteq> set df_example \<and>
   (\<exists>t h p q.
      tpep_pickup_datetime (df_example ! 1) = Some t \<and>
      19723 \<le> dt_date t \<and> dt_date t \<le> 19753 \<and>
      pickup_hour (df_example ! 1) = Some h \<and> 0 \<le> h \<and> h \<le> 12 \<and>
      payment_type (df_example ! 1) = Some p \<and> p \<in> {1, 2} \<and>
      trip_distance (df_example ! 1) = Some (Finite q) \<and> 0 < q \<and> q \<le> 100)"
proof -
  have eq: "filtered_polars df_example [19723, 19753] (0, 12) [1, 2] = Inr (take 2 df_example)"
    by (simp add: filtered_polars_def df_example_def pl_filter_def filter_pred_def
        pl_cmp_def pl_is_in_def dt_date_def)
  have m: "df_example ! 1 \<in> set (take 2 df_example)"
    by (simp add: df_example_def)
  from filtered_polars_sound [OF eq]
  have a: "subseq (take 2 df_example) df_example" "set (take 2 df_example) \<subseteq> set df_example"
    and b: "\<forall>r \<in> set (take 2 df_example). \<exists>t h p q.
            tpep_pickup_datetime r = Some t \<and>
            [19723, 19753] ! 0 \<le> dt_date t \<and> dt_date t \<le> [19723, 19753] ! 1 \<and>
            pickup_hour r = Some h \<and> fst (0 :: int, 12 :: int) \<le> h \<and> h \<le> snd (0 :: int, 12 :: int) \<and>
            payment_type r = Some p \<and> p \<in> set [1, 2] \<and>
            trip_distance r = Some (Finite q) \<and> 0 < q \<and> q \<le> 100"
    by blast+
  from b m have "\<exists>t h p q.
            tpep_pickup_datetime (df_example ! 1) = Some t \<and>
            [19723, 19753] ! 0 \<le> dt_date t \<and> dt_date t \<le> [19723, 19753] ! 1 \<and>
            pickup_hour (df_example ! 1) = Some h \<and> fst (0 :: int, 12 :: int) \<le> h \<and> h \<le> snd (0 :: int, 12 :: int) \<and>
            payment_type (df_example ! 1) = Some p \<and> p \<in> set [1, 2] \<and>
            trip_distance (df_example ! 1) = Some (Finite q) \<and> 0 < q \<and> q \<le> 100"
    by blast
  then show ?thesis
    using eq a by simp
qed

section \<open>Determinism and idempotence of the filter step\<close>

lemma pl_filter_idem: "pl_filter p (pl_filter p rows) = pl_filter p rows"
  by (simp add: pl_filter_def)

lemma filtered_polars_idem:
  "filtered_polars df dr hr ids = Inr view \<Longrightarrow> filtered_polars view dr hr ids = Inr view"
  by (auto simp: filtered_polars_def pl_filter_idem split: list.splits)

text \<open>
  C9. The filter step is a function of the base table and the three criteria alone: two
  script states that agree on \<open>df\<close>, \<open>date_range\<close>, \<open>hour_range\<close> and \<open>selected_ids\<close>
  (and differ anywhere else) produce the same view or the same error; the step leaves
  the base table and the criteria as they were, so running it again on its own result
  state yields that state again; and applying the filter to its own view with the same
  criteria returns the view unchanged.
\<close>

theorem filter_step_deterministic_idempotent:
  "(s_df s = s_df s' \<and> s_date_range s = s_date_range s' \<and> s_hour_range s = s_hour_range s' \<and>
    s_selected_ids s = s_selected_ids s' \<longrightarrow>
      map_sum id s_filtered_polars (filter_step s) = map_sum id s_filtered_polars (filter_step s')) \<and>
   (filter_step s = Inr t \<longrightarrow>
      s_df t = s_df s \<and> s_date_range t = s_date_range s \<and> s_hour_range t = s_hour_range s \<and>
      s_selected_ids t = s_selected_ids s \<and> filter_step t = Inr t \<and>
      (\<exists>view. s_filtered_polars t = Some view \<and>
         filtered_polars (s_df s) (s_date_range s) (s_hour_range s) (s_selected_ids s) = Inr view \<and>
         filtered_polars view (s_date_range s) (s_hour_range s) (s_selected_ids s) = Inr view))"
proof (intro conjI impI)
  assume "s_df s = s_df s' \<and> s_date_range s = s_date_range s' \<and>
    s_hour_range s = s_hour_range s' \<and> s_selected_ids s = s_selected_ids s'"
  then show "map_sum id s_filtered_polars (filter_step s) = map_sum id s_filtered_polars (filter_step s')"
    by (simp add: filter_step_def split: sum.splits)
next
  assume step: "filter_step s = Inr t"
  then obtain view where view:
    "filtered_polars (s_df s) (s_date_range s) (s_hour_range s) (s_selected_ids s) = Inr view"
    and t: "t = s\<lparr>s_filtered_polars := Some view\<rparr>"
    by (auto simp: filter_step_def split: sum.splits)
  show "s_df t = s_df s" "s_date_range t = s_date_range s" "s_hour_range t = s_hour_range s"
    "s_selected_ids t = s_selected_ids s"
    by (simp_all add: t)
  show "filter_step t = Inr t"
    by (simp add: filter_step_def t view)
  show "\<exists>view. s_filtered_polars t = Some view \<and>
         filtered_polars (s_df s) (s_date_range s) (s_hour_range s) (s_selected_ids s) = Inr view \<and>
         filtered_polars view (s_date_range s) (s_hour_range s) (s_selected_ids s) = Inr view"
    using view filtered_polars_idem [OF view] by (simp add: t)
qed

theorem filter_step_deterministic_idempotent_witness:
  "map_sum id s_filtered_polars (filter_step state_example) = Inr (Some (take 2 df_example)) \<and>
   map_sum id s_filtered_polars (filter_step state_example') = Inr (Some (take 2 df_example)) \<and>
   state_example \<noteq> state_example' \<and>
   filter_step (state_example\<lparr>s_filtered_polars := Some (take 2 df_example)\<rparr>)
     = Inr (state_example\<lparr>s_filtered_polars := Some (take 2 df_example)\<rparr>) \<and>
   filtered_polars (take 2 df_example) [19723, 19753] (0, 12) [1, 2] = Inr (take 2 df_example)"
proof -
  have eq: "filtered_polars df_example [19723, 19753] (0, 12) [1, 2] = Inr (take 2 df_example)"
    by (simp add: filtered_polars_def df_example_def pl_filter_def filter_pred_def
        pl_cmp_def pl_is_in_def dt_date_def)
  have step: "filter_step state_example
      = Inr (state_example\<lparr>s_filtered_polars := Some (take 2 df_example)\<rparr>)"
    by (simp add: filter_step_def state_example_def eq)
  have step': "map_sum id s_filtered_polars (filter_step state_example') = Inr (Some (take 2 df_example))"
    by (simp add: filter_step_def state_example'_def eq)
  have ne: "state_example \<noteq> state_example'"
    by (simp add: state_example_def state_example'_def)
  from filter_step_deterministic_idempotent
    [of state_example state_example' "state_example\<lparr>s_filtered_polars := Some (take 2 df_example)\<rparr>"]
  show ?thesis
    using step step' ne by (simp add: state_example_def state_example'_def)
qed

section \<open>Selected payment ids\<close>

lemma selected_ids_subset: "set (selected_ids selected_payments) \<subseteq> {0, 1, 2, 3, 4}"
  by (auto simp: selected_ids_def payment_map_def)

lemma payment_label_known:
  "payment_label (Some 0) = ''Void/Unknown''" "payment_label (Some 1) = ''Credit Card''"
  "payment_label (Some 2) = ''Cash''" "payment_label (Some 3) = ''No Charge''"
  "payment_label (Some 4) = ''Dispute''"
  by (simp_all add: payment_label_def payment_map_def)


text \<open>
  C10. Whatever labels the multiselect returns, \<open>selected_ids\<close> is a subset of the five
  known codes 0..4; a fallback label \<open>ID <code>\<close> among the selected labels contributes
  no id; hence every row of every view the filter step produces with these ids has a
  \<open>payment_type\<close> in 0..4, and a row of the base table whose \<open>payment_type\<close> is null or
  outside 0..4 is in no such view.
\<close>

theorem selected_ids_known_codes:
  "set (selected_ids selected_payments) \<subseteq> {0, 1, 2, 3, 4} \<and>
   selected_ids ((''ID '' @ str_int k) # selected_payments) = selected_ids selected_payments \<and>
   (filtered_polars df dr hr (selected_ids selected_payments) = Inr view \<longrightarrow>
      (\<forall>r \<in> set view. \<exists>p. payment_type r = Some p \<and> p \<in> {0, 1, 2, 3, 4}) \<and>
      (\<forall>r \<in> set df. payment_type r \<notin> Some ` {0, 1, 2, 3, 4} \<longrightarrow> r \<notin> set view))"
proof (intro conjI impI)
  show sub: "set (selected_ids selected_payments) \<subseteq> {0, 1, 2, 3, 4}"
    by (rule selected_ids_subset)
  show "selected_ids ((''ID '' @ str_int k) # selected_payments) = selected_ids selected_payments"
    by (simp add: selected_ids_def payment_map_def)
  assume view: "filtered_polars df dr hr (selected_ids selected_payments) = Inr view"
  have in_view: "\<exists>p. payment_type r = Some p \<and> p \<in> {0, 1, 2, 3, 4}" if "r \<in> set view" for r
  proof -
    from filtered_polars_rows [OF view that]
    obtain p where "payment_type r = Some p" "p \<in> set (selected_ids selected_payments)"
      by blast
    with sub show ?thesis
      by blast
  qed
  then show "\<forall>r \<in> set view. \<exists>p. payment_type r = Some p \<and> p \<in> {0, 1, 2, 3, 4}"
    by blast
  show "\<forall>r \<in> set df. payment_type r \<notin> Some ` {0, 1, 2, 3, 4} \<longrightarrow> r \<notin> set view"
    using in_view by blast
qed

theorem selected_ids_known_codes_witness:
  "payment_options df_example = [''Cash'', ''Credit Card'', ''ID 5''] \<and>
   selected_ids (payment_options df_example) = [1, 2] \<and>
   set (selected_ids (payment_options df_example)) \<subseteq> {0, 1, 2, 3, 4} \<and>
   filtered_polars df_example [19723, 19753] (0, 23) (selected_ids (payment_options df_example))
     = Inr (take 2 df_example) \<and>
   payment_type (df_example ! 2) = Some 5 \<and> df_example ! 2 \<notin> set (take 2 df_example)"
proof -
  have opts: "payment_options df_example = [''Cash'', ''Credit Card'', ''ID 5'']"
    by (simp add: payment_options_def df_example_def payment_label_def payment_map_def
        str_int_def str_nat.simps)
  have ids: "selected_ids (payment_options df_example) = [1, 2]"
    by (simp add: opts selected_ids_def payment_map_def)
  have eq: "filtered_polars df_example [19723, 19753] (0, 23) (selected_ids (payment_options df_example))
      = Inr (take 2 df_example)"
    unfolding ids
    by (simp add: filtered_polars_def df_example_def pl_filter_def filter_pred_def
        pl_cmp_def pl_is_in_def dt_date_def)
  have row: "payment_type (df_example ! 2) = Some 5" "df_example ! 2 \<in> set df_example"
    by (simp_all add: df_example_def)
  from selected_ids_known_codes
    [of "payment_options df_example" 5 df_example "[19723, 19753]" "(0, 23)" "take 2 df_example"]
  have "set (selected_ids (payment_options df_example)) \<subseteq> {0, 1, 2, 3, 4}"
    and "\<forall>r \<in> set df_example. payment_type r \<notin> Some ` {0, 1, 2, 3, 4} \<longrightarrow> r \<notin> set (take 2 df_example)"
    using eq by blast+
  with row have "set (selected_ids (payment_options df_example)) \<subseteq> {0, 1, 2, 3, 4}"
    and "df_example ! 2 \<notin> set (take 2 df_example)"
    by auto
  with opts ids eq row show ?thesis
    by simp
qed

section \<open>Failed downloads\<close>

lemma download_file_bad_status:
  assumes "fs destination = None" "requests_get url = Response status_code body" "status_code \<noteq> 200"
  shows "download_file requests_get url destination fs
           = (Inl (DownloadFailed (''Failed to download '' @ url)), fs)"
  using assms by (simp add: download_file_def)

lemma download_file_interrupted:
  assumes "fs destination = None" "requests_get url = Response 200 body"
    "write_chunks [] body = (written, False)"
  shows "download_file requests_get url destination fs
           = (Inl ConnectionError, fs(destination \<mapsto> written))"
  using assms by (simp add: download_file_def)

lemma download_file_cache_hit:
  "fs destination = Some content \<Longrightarrow>
     download_file requests_get url destination fs = (Inr AlreadyExists, fs)"
  by (simp add: download_file_def)

text \<open>
  C8, as the code has it. With no file at the destination: a response whose status is
  not 200 makes the fetch fail before the destination is opened, so the file system is
  unchanged and no file exists there afterwards. A transfer interrupted while the body is
  read makes the fetch fail too, but what was written up to then stays at the
  destination, and every later run finds the file, reports it as already existing and
  keeps the partial content whatever the remote would send.
\<close>

theorem download_file_failure:
  assumes "fs destination = None"
  shows
    "(requests_get url = Response status_code body \<and> status_code \<noteq> 200 \<longrightarrow>
        (\<exists>e. fst (download_file requests_get url destination fs) = Inl e) \<and>
        snd (download_file requests_get url destination fs) = fs \<and>
        snd (download_file requests_get url destination fs) destination = None) \<and>
     (requests_get url = Response 200 body \<and> write_chunks [] body = (written, False) \<longrightarrow>
        fst (download_file requests_get url destination fs) = Inl ConnectionError \<and>
        snd (download_file requests_get url destination fs) destination = Some written \<and>
        download_file requests_get' url destination (snd (download_file requests_get url destination fs))
          = (Inr AlreadyExists, fs(destination \<mapsto> written)))"
proof (intro conjI impI)
  assume a: "requests_get url = Response status_code body \<and> status_code \<noteq> 200"
  then have "download_file requests_get url destination fs
      = (Inl (DownloadFailed (''Failed to download '' @ url)), fs)"
    using assms download_file_bad_status by blast
  then show "\<exists>e. fst (download_file requests_get url destination fs) = Inl e"
    "snd (download_file requests_get url destination fs) = fs"
    "snd (download_file requests_get url destination fs) destination = None"
    using assms by simp_all
next
  assume a: "requests_get url = Response 200 body \<and> write_chunks [] body = (written, False)"
  then have eq: "download_file requests_get url destination fs
      = (Inl ConnectionError, fs(destination \<mapsto> written))"
    using assms download_file_interrupted by blast
  then show "fst (download_file requests_get url destination fs) = Inl ConnectionError"
    "snd (download_file requests_get url destination fs) destination = Some written"
    by simp_all
  show "download_file requests_get' url destination (snd (download_file requests_get url destination fs))
          = (Inr AlreadyExists, fs(destination \<mapsto> written))"
    by (simp add: eq download_file_cache_hit)
qed

theorem download_file_failure_witness:
  "download_file (\<lambda>u. Response 404 [Chunk ''Not Found'']) trip_url trip_file Map.empty
     = (Inl (DownloadFailed (''Failed to download '' @ trip_url)), Map.empty) \<and>
   fst (download_file (\<lambda>u. Response 200 [Chunk ''PAR1'', Interrupted]) trip_url trip_file Map.empty)
     = Inl ConnectionError \<and>
   snd (download_file (\<lambda>u. Response 200 [Chunk ''PAR1'', Interrupted]) trip_url trip_file Map.empty)
     trip_file = Some ''PAR1''"
proof -
  have e: "(Map.empty :: filesystem) trip_file = None"
    by simp
  have w: "write_chunks [] [Chunk ''PAR1'', Interrupted] = (''PAR1'', False)"
    by simp
  from download_file_failure [OF e, of "\<lambda>u. Response 404 [Chunk ''Not Found'']" trip_url 404
      "[Chunk ''Not Found'']" "''''"]
    download_file_failure [OF e, of "\<lambda>u. Response 200 [Chunk ''PAR1'', Interrupted]" trip_url 200
      "[Chunk ''PAR1'', Interrupted]" "''PAR1''"] w
  show ?thesis
    by (simp add: download_file_def)
qed

text \<open>
  A partial file can be left behind: a transfer that breaks after the first chunk
  leaves that chunk at the destination, and the next run takes the file for a cache hit
  although the remote would now deliver the whole body.
\<close>

theorem download_file_partial_counterexample:
  "fst (download_file (\<lambda>u. Response 200 [Chunk ''PAR1'', Interrupted]) trip_url trip_file Map.empty)
     = Inl ConnectionError \<and>
   snd (download_file (\<lambda>u. Response 200 [Chunk ''PAR1'', Interrupted]) trip_url trip_file Map.empty)
     trip_file = Some ''PAR1'' \<and>
   download_file (\<lambda>u. Response 200 [Chunk ''PAR1'', Chunk ''data'', Chunk ''PAR1''])
       trip_url trip_file
       (snd (download_file (\<lambda>u. Response 200 [Chunk ''PAR1'', Interrupted]) trip_url trip_file Map.empty))
     = (Inr AlreadyExists, Map.empty(trip_file \<mapsto> ''PAR1''))"
  by (simp add: download_file_def)

section \<open>Grouping and sorting\<close>

lemma sort_values_descD:
  assumes "sort_values_desc srt"
  shows "mset (srt xs) = mset xs" "sorted_wrt (\<lambda>a b. snd b \<le> snd a) (srt xs)"
    "set (srt xs) = set xs" "length (srt xs) = length xs"
    "distinct (map fst (srt xs)) = distinct (map fst xs)"
proof -
  show m: "mset (srt xs) = mset xs" and "sorted_wrt (\<lambda>a b. snd b \<le> snd a) (srt xs)"
    using assms by (simp_all add: sort_values_desc_def)
  show "set (srt xs) = set xs"
    using m by (rule mset_eq_setD)
  show "length (srt xs) = length xs"
    using m by (rule mset_eq_length)
  have "mset (map fst (srt xs)) = mset (map fst xs)"
    using m by simp
  then show "distinct (map fst (srt xs)) = distinct (map fst xs)"
    by (rule mset_eq_imp_distinct_iff)
qed

lemma sort_values_desc_Nil: "sort_values_desc srt \<Longrightarrow> srt [] = []"
  using sort_values_descD(4) [of srt "[]"] by simp

lemma sorted_desc_rev_sort_key:
  "sorted_wrt (\<lambda>a b. snd b \<le> snd a) (rev (sort_key snd (xs :: ('k \<times> nat) list)))"
proof -
  have "sorted (map snd (sort_key snd xs))"
    by (rule sorted_sort_key)
  then have "sorted_wrt (\<lambda>a b. snd a \<le> snd b) (sort_key snd xs)"
    by (simp only: sorted_map)
  then show ?thesis
    by (simp only: sorted_wrt_rev)
qed

lemma sort_desc_ties_first_ok: "sort_values_desc sort_desc_ties_first"
  unfolding sort_values_desc_def sort_desc_ties_first_def
  by (simp add: sorted_desc_rev_sort_key)


lemma set_map_filter_id: "set (List.map_filter id ks) = {k. Some k \<in> set ks}"
  by (induction ks) (auto simp: List.map_filter_simps split: option.splits)

lemma set_group_keys [simp]: "set (group_keys ks) = {k. Some k \<in> set ks}"
  by (simp add: group_keys_def set_map_filter_id)

lemma sorted_group_keys [simp]: "sorted (group_keys ks)"
  by (simp add: group_keys_def)

lemma distinct_group_keys [simp]: "distinct (group_keys ks)"
  by (simp add: group_keys_def)

lemma group_keys_Nil [simp]: "group_keys [] = []"
  by (simp add: group_keys_def)

lemma map_fst_groupby_size [simp]: "map fst (groupby_size ks) = group_keys ks"
  by (simp add: groupby_size_def comp_def)

lemma set_groupby_size:
  "set (groupby_size ks) = {(k, n). Some k \<in> set ks \<and> n = count_list ks (Some k)}"
  by (auto simp: groupby_size_def)

lemma count_list_map_key:
  "count_list (map f xs) (Some k) = length (filter (\<lambda>x. f x = Some k) xs)"
  by (induction xs) auto

lemma map_of_groupby_size:
  "map_of (groupby_size ks) k = (if Some k \<in> set ks then Some (count_list ks (Some k)) else None)"
proof -
  have "map_of (map (\<lambda>k. (k, g k)) xs) k = (if k \<in> set xs then Some (g k) else None)" for g :: "'a \<Rightarrow> nat" and xs
    by (induction xs) auto
  then show ?thesis
    by (simp add: groupby_size_def)
qed

section \<open>Top pickup zones\<close>






section \<open>Average fare by hour\<close>




lemma pd_mean_empty: "pd_dropna col = [] \<Longrightarrow> pd_mean col = NaN"
  by (simp add: pd_mean_def)


lemma avg_fare_hour_entry:
  assumes "(h, m) \<in> set (avg_fare_hour df)"
  shows "filter (\<lambda>r. pickup_hour r = Some h) df \<noteq> [] \<and>
         m = pd_mean (map fare_amount (filter (\<lambda>r. pickup_hour r = Some h) df))"
proof -
  from assms have "Some h \<in> set (map pickup_hour df)"
    and m: "m = pd_mean (map fare_amount (filter (\<lambda>r. pickup_hour r = Some h) df))"
    by (auto simp: avg_fare_hour_def)
  then obtain r where "r \<in> set df" "pickup_hour r = Some h"
    by auto
  then have "filter (\<lambda>r. pickup_hour r = Some h) df \<noteq> []"
    by (auto simp: filter_empty_conv)
  with m show ?thesis
    by simp
qed





section \<open>Trips by day and hour\<close>

lemma day_hour_key_Some:
  "day_hour_key r = Some (d, h) \<longleftrightarrow> pickup_day_of_week r = Some d \<and> pickup_hour r = Some h"
  by (auto simp: day_hour_key_def split: option.splits)

lemma filled_cell:
  "(case map_of (day_hour_counts df) (d, h) of Some n \<Rightarrow> n | None \<Rightarrow> 0)
     = length (filter (\<lambda>r. pickup_day_of_week r = Some d \<and> pickup_hour r = Some h) df)"
proof -
  have "(case map_of (day_hour_counts df) (d, h) of Some n \<Rightarrow> n | None \<Rightarrow> 0)
      = count_list (map day_hour_key df) (Some (d, h))"
    by (simp add: day_hour_counts_def map_of_groupby_size count_list_0_iff)
  then show ?thesis
    by (simp add: count_list_map_key day_hour_key_Some)
qed

lemma map_of_rows:
  "map_of (map (\<lambda>d. (d, g d)) ds) d = (if d \<in> set ds then Some (g d) else None)"
  by (induction ds) auto

lemma heatmap_columns:
  "fst (heatmap_data df) = sort (remdups (map (\<lambda>((d, h), n). h) (day_hour_counts df)))"
  by (simp add: heatmap_data_def fillna0_def reindex_def pivot_def Let_def)

lemma set_heatmap_columns:
  "set (fst (heatmap_data df))
     = {h. \<exists>r \<in> set df. pickup_hour r = Some h \<and> pickup_day_of_week r \<noteq> None}"
proof -
  have "set (fst (heatmap_data df)) = {h. \<exists>d. Some (d, h) \<in> set (map day_hour_key df)}"
    by (force simp: heatmap_columns day_hour_counts_def set_groupby_size image_iff)
  also have "\<dots> = {h. \<exists>d. \<exists>r \<in> set df. day_hour_key r = Some (d, h)}"
    by (auto simp: image_iff) metis+
  also have "\<dots> = {h. \<exists>r \<in> set df. pickup_hour r = Some h \<and> pickup_day_of_week r \<noteq> None}"
    unfolding day_hour_key_Some by auto
  finally show ?thesis .
qed

lemma heatmap_row:
  "snd (heatmap_data df) =
     map (\<lambda>d. (d, map (\<lambda>h. length (filter (\<lambda>r. pickup_day_of_week r = Some d \<and> pickup_hour r = Some h) df))
                    (fst (heatmap_data df)))) day_order"
proof -
  let ?counts = "day_hour_counts df"
  let ?index = "sort (remdups (map (\<lambda>((d, h), n). d) ?counts))"
  let ?columns = "sort (remdups (map (\<lambda>((d, h), n). h) ?counts))"
  let ?fill = "\<lambda>c. case c of Some n \<Rightarrow> n | None \<Rightarrow> (0 :: nat)"
  have absent: "map_of ?counts (d, h) = None" if "d \<notin> set ?index" for d h
  proof -
    from that have "(d, h) \<notin> fst ` set ?counts"
      by (force simp: image_iff)
    then show ?thesis
      by (simp add: map_of_eq_None_iff)
  qed
  have cells: "map ?fill (case map_of (map (\<lambda>d. (d, map (\<lambda>h. map_of ?counts (d, h)) ?columns)) ?index) d of
                    Some cells \<Rightarrow> cells | None \<Rightarrow> map (\<lambda>h. None) ?columns)
      = map (\<lambda>h. length (filter (\<lambda>r. pickup_day_of_week r = Some d \<and> pickup_hour r = Some h) df)) ?columns"
    for d
  proof (cases "d \<in> set ?index")
    case True
    then show ?thesis
      by (simp add: map_of_rows filled_cell comp_def)
  next
    case False
    have "length (filter (\<lambda>r. pickup_day_of_week r = Some d \<and> pickup_hour r = Some h) df) = 0" for h
      using filled_cell [of df d h] absent [OF False, of h] by simp
    with False show ?thesis
      by (simp add: map_of_rows comp_def)
  qed
  have "snd (heatmap_data df) =
      map (\<lambda>d. (d, map ?fill (case map_of (map (\<lambda>d. (d, map (\<lambda>h. map_of ?counts (d, h)) ?columns)) ?index) d of
                    Some cells \<Rightarrow> cells | None \<Rightarrow> map (\<lambda>h. None) ?columns))) day_order"
    by (simp add: heatmap_data_def fillna0_def reindex_def pivot_def Let_def cong: option.case_cong)
  then have "snd (heatmap_data df) =
      map (\<lambda>d. (d, map (\<lambda>h. length (filter (\<lambda>r. pickup_day_of_week r = Some d \<and> pickup_hour r = Some h) df)) ?columns))
        day_order"
    by (simp only: cells)
  then show ?thesis
    by (simp only: heatmap_columns)
qed

text \<open>
  C3, as the code has it. The cross-tab has exactly 7 rows, labelled Monday to Sunday in
  this order. Its columns are the hours that occur in the view (on a row whose day is
  present), in ascending order and without repetition, so there are as many columns as
  distinct hours, not always 24. Every cell is the number of rows of the view with that
  day and hour, which is 0, never missing, for a combination that does not occur.
\<close>

theorem heatmap_data_shape:
  "map fst (snd (heatmap_data df)) = day_order \<and> length (snd (heatmap_data df)) = 7 \<and>
   sorted (fst (heatmap_data df)) \<and> distinct (fst (heatmap_data df)) \<and>
   set (fst (heatmap_data df))
     = {h. \<exists>r \<in> set df. pickup_hour r = Some h \<and> pickup_day_of_week r \<noteq> None} \<and>
   (\<forall>(d, cells) \<in> set (snd (heatmap_data df)).
      cells = map (\<lambda>h. length (filter (\<lambda>r. pickup_day_of_week r = Some d \<and> pickup_hour r = Some h) df))
                (fst (heatmap_data df)))"
proof (intro conjI)
  show "map fst (snd (heatmap_data df)) = day_order"
    by (subst heatmap_row) (simp add: comp_def)
  show "length (snd (heatmap_data df)) = 7"
    by (subst heatmap_row) (simp add: day_order_def)
  show "sorted (fst (heatmap_data df))" "distinct (fst (heatmap_data df))"
    by (simp_all add: heatmap_columns)
  show "set (fst (heatmap_data df))
     = {h. \<exists>r \<in> set df. pickup_hour r = Some h \<and> pickup_day_of_week r \<noteq> None}"
    by (rule set_heatmap_columns)
  show "\<forall>(d, cells) \<in> set (snd (heatmap_data df)).
      cells = map (\<lambda>h. length (filter (\<lambda>r. pickup_day_of_week r = Some d \<and> pickup_hour r = Some h) df))
                (fst (heatmap_data df))"
    by (subst heatmap_row) auto
qed

lemma heatmap_data_example:
  "heatmap_data (take 2 df_example) =
     ([9], [(''Monday'', [1]), (''Tuesday'', [1]), (''Wednesday'', [0]), (''Thursday'', [0]),
            (''Friday'', [0]), (''Saturday'', [0]), (''Sunday'', [0])])"
  by (simp add: heatmap_data_def fillna0_def reindex_def pivot_def day_hour_counts_def
      day_hour_key_def groupby_size_def group_keys_def df_example_def day_order_def)

theorem heatmap_data_shape_witness:
  "heatmap_data (take 2 df_example) =
     ([9], [(''Monday'', [1]), (''Tuesday'', [1]), (''Wednesday'', [0]), (''Thursday'', [0]),
            (''Friday'', [0]), (''Saturday'', [0]), (''Sunday'', [0])]) \<and>
   map fst (snd (heatmap_data (take 2 df_example))) = day_order \<and>
   length (snd (heatmap_data (take 2 df_example))) = 7 \<and>
   set (fst (heatmap_data (take 2 df_example))) = {9}"
  using heatmap_data_shape [of "take 2 df_example"]
  by (simp add: heatmap_data_example day_order_def)

text \<open>
  The matrix does not always have 24 columns: for a view the filter step produces,
  whose two rows both have hour 9, the cross-tab has the single column 9.
\<close>

theorem heatmap_data_24_counterexample:
  "filtered_polars df_example [19723, 19753] (0, 12) [1, 2] = Inr (take 2 df_example) \<and>
   fst (heatmap_data (take 2 df_example)) = [9] \<and>
   length (fst (heatmap_data (take 2 df_example))) \<noteq> 24 \<and>
   snd (heatmap_data (take 2 df_example)) ! 0 = (''Monday'', [1])"
  by (simp add: heatmap_data_example)
    (simp add: filtered_polars_def df_example_def pl_filter_def filter_pred_def
      pl_cmp_def pl_is_in_def dt_date_def)

section \<open>Payment type distribution\<close>









section \<open>The empty view\<close>

text \<open>
  C4. For the view with zero rows, whatever sort meets the contract: the key metrics are
  not computed, the top zones, the mean fare by hour and the payment distribution are
  empty, the cross-tab has its seven day rows and no column, and the histogram receives
  an empty column. No mean divides by zero: a mean over no values is NaN, every group of
  the mean-by-hour aggregate is non-empty, and the key metrics exist for a non-empty
  view only.
\<close>

theorem empty_view_aggregates:
  assumes "sort_values_desc srt_zones" "sort_values_desc srt_payments"
  shows "key_metrics [] = None \<and>
         top_zones srt_zones [] zones = [] \<and>
         avg_fare_hour [] = [] \<and>
         payment_breakdown srt_payments [] = [] \<and>
         heatmap_data [] = ([], map (\<lambda>d. (d, [])) day_order) \<and>
         histogram_x [] = [] \<and>
         (\<forall>col. pd_dropna col = [] \<longrightarrow> pd_mean col = NaN) \<and>
         (\<forall>df h m. (h, m) \<in> set (avg_fare_hour df) \<longrightarrow>
            filter (\<lambda>r. pickup_hour r = Some h) df \<noteq> []) \<and>
         (\<forall>df. key_metrics df \<noteq> None \<longrightarrow> df \<noteq> [])"
proof (intro conjI allI impI)
  show "key_metrics [] = None"
    by (simp add: key_metrics_def)
  show "top_zones srt_zones [] zones = []"
    by (simp add: top_zones_def zone_counts_def merge_zones_def groupby_size_def
        sort_values_desc_Nil [OF assms(1)])
  show "avg_fare_hour [] = []"
    by (simp add: avg_fare_hour_def)
  show "payment_breakdown srt_payments [] = []"
    by (simp add: payment_breakdown_def value_counts_def sort_values_desc_Nil [OF assms(2)])
  show "heatmap_data [] = ([], map (\<lambda>d. (d, [])) day_order)"
    by (simp add: heatmap_data_def fillna0_def reindex_def pivot_def day_hour_counts_def
        groupby_size_def)
  show "histogram_x [] = []"
    by (simp add: histogram_x_def)
next
  fix col
  assume "pd_dropna col = []"
  then show "pd_mean col = NaN"
    by (rule pd_mean_empty)
next
  fix df h m
  assume "(h, m) \<in> set (avg_fare_hour df)"
  then show "filter (\<lambda>r. pickup_hour r = Some h) df \<noteq> []"
    using avg_fare_hour_entry by blast
next
  fix df
  assume "key_metrics df \<noteq> None"
  then show "df \<noteq> []"
    by (auto simp: key_metrics_def)
qed

theorem empty_view_aggregates_witness:
  "filtered_polars df_example [19723, 19753] (0, 12) [] = Inr [] \<and>
   key_metrics [] = None \<and>
   top_zones sort_desc_ties_first [] zones_example = [] \<and>
   avg_fare_hour [] = [] \<and>
   payment_breakdown sort_desc_ties_first [] = [] \<and>
   heatmap_data [] = ([], map (\<lambda>d. (d, [])) day_order) \<and>
   histogram_x [] = []"
proof -
  have "filtered_polars df_example [19723, 19753] (0, 12) [] = Inr []"
    by (simp add: filtered_polars_def df_example_def pl_filter_def filter_pred_def
        pl_cmp_def pl_is_in_def dt_date_def)
  with empty_view_aggregates [OF sort_desc_ties_first_ok sort_desc_ties_first_ok, of zones_example]
  show ?thesis
    by simp
qed

section \<open>The filter under maximal bounds\<close>

lemma filtered_polars_eq:
  "filtered_polars df (d0 # d1 # rest) hr ids =
     Inr (filter (\<lambda>r. \<exists>t h p q.
            tpep_pickup_datetime r = Some t \<and> d0 \<le> dt_date t \<and> dt_date t \<le> d1 \<and>
            pickup_hour r = Some h \<and> fst hr \<le> h \<and> h \<le> snd hr \<and>
            payment_type r = Some p \<and> p \<in> set ids \<and>
            trip_distance r = Some (Finite q) \<and> 0 < q \<and> q \<le> 100) df)"
  by (simp add: filtered_polars_def pl_filter_def filter_pred_True)

lemma load_data_hour_distance:
  assumes "row \<in> set (load_data rows)"
  shows "(\<exists>h. pickup_hour row = Some h \<and> 0 \<le> h \<and> h \<le> 23) \<and>
         (\<exists>q. trip_distance row = Some (Finite q) \<and> 0 < q \<and> q \<le> 100)"
proof -
  from assms obtain r where r: "valid_trip r = Some True" and row: "row = select_cols r"
    by (auto simp: load_data_def)
  from r obtain d p where "raw_trip_distance r = Some (Finite d)" "0 < d" "d \<le> 100"
    "raw_pickup_datetime r = Some p"
    unfolding valid_trip_True by blast
  then show ?thesis
    using dt_hour_range [of p] by (simp add: row select_cols_def)
qed

text \<open>
  Under maximal bounds the filter is the identity on the materialised table: with the
  hour range (0, 23), a date range that covers every pickup date and a selection that
  holds every payment type of the table, the view is the whole table, in its order.
\<close>

theorem filter_noop_maximal:
  assumes "\<forall>r \<in> set (load_data rows). \<exists>t p.
             tpep_pickup_datetime r = Some t \<and> d0 \<le> dt_date t \<and> dt_date t \<le> d1 \<and>
             payment_type r = Some p \<and> p \<in> set ids"
  shows "filtered_polars (load_data rows) [d0, d1] (0, 23) ids = Inr (load_data rows)"
proof -
  have "\<exists>t h p q.
            tpep_pickup_datetime r = Some t \<and> d0 \<le> dt_date t \<and> dt_date t \<le> d1 \<and>
            pickup_hour r = Some h \<and> fst (0 :: int, 23 :: int) \<le> h \<and> h \<le> snd (0 :: int, 23 :: int) \<and>
            payment_type r = Some p \<and> p \<in> set ids \<and>
            trip_distance r = Some (Finite q) \<and> 0 < q \<and> q \<le> 100"
    if "r \<in> set (load_data rows)" for r
    using assms that load_data_hour_distance [OF that] by fastforce
  then show ?thesis
    unfolding filtered_polars_eq by (simp cong: filter_cong)
qed

theorem filter_noop_maximal_witness:
  "filtered_polars (load_data raw_example) [19723, 19753] (0, 23) [1, 2] = Inr (load_data raw_example) \<and>
   length (load_data raw_example) = 1"
proof -
  have eq: "load_data raw_example =
     [\<lparr> tpep_pickup_datetime = Some 1704099600000000, fare_amount = Some (Finite 14),
        total_amount = Some (Finite 18), PULocationID = Some 132,
        trip_distance = Some (Finite (5 / 2)), trip_duration_minutes = Some 15,
        pickup_hour = Some 9, pickup_day_of_week = Some ''Monday'',
        payment_type = Some 1 \<rparr>]"
    by (simp add: load_data_def raw_example_def drop_nulls_def pl_filter_def valid_trip_def
        pl_cmp_def pl_cmp_cols_def select_cols_def dt_hour_def dt_total_minutes_def
        strftime_A_def dt_date_def day_order_def)
  have "\<forall>r \<in> set (load_data raw_example). \<exists>t p.
             tpep_pickup_datetime r = Some t \<and> 19723 \<le> dt_date t \<and> dt_date t \<le> 19753 \<and>
             payment_type r = Some p \<and> p \<in> set [1, 2]"
    unfolding eq by (simp add: dt_date_def)
  from filter_noop_maximal [OF this] show ?thesis
    by (simp add: eq)
qed

section \<open>Proportions\<close>

lemma sum_list_proportions:
  fixes xs :: "('k \<times> nat) list" and L :: rat
  shows "sum_list (map (\<lambda>(v, n). of_nat n / L) xs) = of_nat (sum_list (map snd xs)) / L"
  by (induction xs) (auto simp: add_divide_distrib)

lemma sum_list_snd_mset:
  fixes xs ys :: "('k \<times> nat) list"
  shows "mset xs = mset ys \<Longrightarrow> sum_list (map snd xs) = sum_list (map snd ys)"
  by (metis mset_map sum_mset_sum_list)

lemma sum_list_counts: "sum_list (map (count_list vs) (rev (remdups (rev vs)))) = length vs"
proof -
  have "sum_list (map (count_list vs) (rev (remdups (rev vs)))) = sum (count_list vs) (set vs)"
    by (subst sum_list_distinct_conv_sum_set) simp_all
  also have "\<dots> = length vs"
    by (rule sum_count_set) simp_all
  finally show ?thesis .
qed

text \<open>
  The proportions of the payment-type distribution sum to 1 whenever the view has a row
  with a payment type.
\<close>

theorem payment_breakdown_proportions_sum:
  assumes "sort_values_desc srt" "\<exists>r \<in> set df. payment_type r \<noteq> None"
  shows "sum_list (map ps_proportion (payment_breakdown srt df)) = 1"
proof -
  let ?vs = "List.map_filter id (map payment_type df)"
  let ?xs = "map (\<lambda>v. (v, count_list ?vs v)) (rev (remdups (rev ?vs)))"
  from assms(2) have "set ?vs \<noteq> {}"
    unfolding set_map_filter_id by force
  then have ne: "length ?vs \<noteq> 0"
    by simp
  have "sum_list (map snd (srt ?xs)) = sum_list (map snd ?xs)"
    using sort_values_descD(1) [OF assms(1), of ?xs] by (rule sum_list_snd_mset)
  also have "\<dots> = length ?vs"
    using sum_list_counts [of ?vs] by (simp add: comp_def)
  finally have total: "sum_list (map snd (srt ?xs)) = length ?vs" .
  have "map ps_proportion (payment_breakdown srt df)
      = map (\<lambda>(v, n). of_nat n / of_nat (length ?vs)) (srt ?xs)"
    by (simp add: payment_breakdown_def value_counts_def Let_def comp_def case_prod_unfold)
  then have "sum_list (map ps_proportion (payment_breakdown srt df))
      = of_nat (sum_list (map snd (srt ?xs))) / of_nat (length ?vs)"
    by (simp only: sum_list_proportions)
  then show ?thesis
    using ne by (simp add: total)
qed

theorem payment_breakdown_proportions_sum_witness:
  "map ps_proportion (payment_breakdown sort_desc_ties_first df_example) = [1 / 3, 1 / 3, 1 / 3] \<and>
   sum_list (map ps_proportion (payment_breakdown sort_desc_ties_first df_example)) = 1"
proof -
  have "\<exists>r \<in> set df_example. payment_type r \<noteq> None"
    by (simp add: df_example_def)
  from payment_breakdown_proportions_sum [OF sort_desc_ties_first_ok this]
  show ?thesis
    by (simp add: payment_breakdown_def value_counts_def sort_desc_ties_first_def df_example_def)
qed

section \<open>Derived columns\<close>

text \<open>
  The derived columns of a materialised row: \<open>trip_duration_minutes\<close> is the whole
  number of minutes from pickup to dropoff and is not negative, and
  \<open>pickup_day_of_week\<close> is one of the seven English day names.
\<close>

theorem load_data_duration:
  assumes "row \<in> set (load_data rows)"
  shows "\<exists>r p t. r \<in> set rows \<and> row = select_cols r \<and>
           raw_pickup_datetime r = Some p \<and> raw_dropoff_datetime r = Some t \<and>
           trip_duration_minutes row = Some ((t - p) div 60000000) \<and>
           0 \<le> (t - p) div 60000000 \<and>
           pickup_day_of_week row = Some (strftime_A p) \<and> strftime_A p \<in> set day_order"
proof -
  from assms obtain r where r: "r \<in> set rows" "valid_trip r = Some True"
    and row: "row = select_cols r"
    by (auto simp: load_data_def drop_nulls_def)
  from r(2) obtain p t where v: "raw_pickup_datetime r = Some p" "raw_dropoff_datetime r = Some t" "p \<le> t"
    unfolding valid_trip_True by blast
  have "nat ((dt_date p + 3) mod 7) < length day_order"
    by (simp add: day_order_def nat_less_iff)
  then have "strftime_A p \<in> set day_order"
    unfolding strftime_A_def by (rule nth_mem)
  moreover have "trip_duration_minutes row = Some ((t - p) div 60000000)"
    using v by (simp add: row select_cols_def dt_total_minutes_def)
  moreover have "0 \<le> (t - p) div 60000000"
    using v(3) by (simp add: pos_imp_zdiv_nonneg_iff)
  ultimately show ?thesis
    using r(1) row v by (auto simp: select_cols_def)
qed

theorem load_data_duration_witness:
  "trip_duration_minutes (hd (load_data raw_example)) = Some 15 \<and>
   pickup_day_of_week (hd (load_data raw_example)) = Some ''Monday''"
proof -
  have eq: "load_data raw_example =
     [\<lparr> tpep_pickup_datetime = Some 1704099600000000, fare_amount = Some (Finite 14),
        total_amount = Some (Finite 18), PULocationID = Some 132,
        trip_distance = Some (Finite (5 / 2)), trip_duration_minutes = Some 15,
        pickup_hour = Some 9, pickup_day_of_week = Some ''Monday'',
        payment_type = Some 1 \<rparr>]"
    by (simp add: load_data_def raw_example_def drop_nulls_def pl_filter_def valid_trip_def
        pl_cmp_def pl_cmp_cols_def select_cols_def dt_hour_def dt_total_minutes_def
        strftime_A_def dt_date_def day_order_def)
  then have "hd (load_data raw_example) \<in> set (load_data raw_example)"
    by simp
  from load_data_duration [OF this] show ?thesis
    by (simp add: eq)
qed

end
